theory Spec2Isabelle
  imports Complex_Main
begin

section \<open>Data model of the dashboard\<close>

text \<open>
  The dashboard is a React front end. Its logic lives in four places:
  \<^item> \<^verbatim>\<open>services/api.ts\<close>: \<^verbatim>\<open>getTestData\<close>, \<^verbatim>\<open>getHealth\<close>;
  \<^item> \<^verbatim>\<open>App.tsx\<close>: the \<^verbatim>\<open>Dashboard\<close> component (\<^verbatim>\<open>fetchData\<close>, the render guards,
    \<^verbatim>\<open>hasNosyAdmins\<close>);
  \<^item> \<^verbatim>\<open>components/ThreatCharts.tsx\<close>: \<^verbatim>\<open>fetchChartData\<close> and the four \<^verbatim>\<open>process...\<close>
    aggregations, and the \<^verbatim>\<open>LiveEvents\<close> component with its per-event prediction fan-out;
  \<^item> \<^verbatim>\<open>components/ROCCurve.tsx\<close>: \<^verbatim>\<open>chartData\<close>, \<^verbatim>\<open>referenceData\<close>, \<^verbatim>\<open>getAUCColor\<close>.

  A JavaScript \<^verbatim>\<open>number\<close> received from the service is modelled as a \<^typ>\<open>real\<close>, a counter
  the code builds itself as a \<^typ>\<open>nat\<close>, a string as a \<^typ>\<open>string\<close> whose elements stand
  for the string's code units, \<^verbatim>\<open>null\<close>/\<^verbatim>\<open>undefined\<close> as \<^const>\<open>None\<close>.
\<close>

subsection \<open>Events\<close>

text \<open>\<^verbatim>\<open>interface Event\<close> of the live-event stream; \<^verbatim>\<open>ml_prediction\<close> is optional.\<close>

record MlPrediction =
  prediction :: string
  confidence :: real

record Event =
  timestamp :: string
  user_id :: string
  action :: string
  table_name :: string
  is_suspicious :: bool
  ml_prediction :: "MlPrediction option"

subsection \<open>Plain objects used as dictionaries\<close>

text \<open>
  \<^verbatim>\<open>Record<string, number>\<close> values are plain JavaScript objects. An object is modelled by the
  list of its own properties in creation order. \<^verbatim>\<open>Object.keys\<close> and \<^verbatim>\<open>Object.entries\<close> do not
  list them in that order: own keys that are array indices (canonical decimal strings below
  \<open>2\<^sup>3\<^sup>2 - 1\<close>) come first, in ascending numeric order, and the other string keys follow in
  creation order.
\<close>

type_synonym 'v jsobject = "(string \<times> 'v) list"

definition digitOf :: "char \<Rightarrow> nat option" where
  "digitOf c = map_of
     [(CHR ''0'', 0), (CHR ''1'', 1), (CHR ''2'', 2), (CHR ''3'', 3), (CHR ''4'', 4),
      (CHR ''5'', 5), (CHR ''6'', 6), (CHR ''7'', 7), (CHR ''8'', 8), (CHR ''9'', 9)] c"

fun parseDigits :: "nat \<Rightarrow> string \<Rightarrow> nat option" where
  "parseDigits acc [] = Some acc"
| "parseDigits acc (c # cs) =
     (case digitOf c of None \<Rightarrow> None | Some d \<Rightarrow> parseDigits (10 * acc + d) cs)"

definition arrayIndex :: "string \<Rightarrow> nat option" where
  "arrayIndex s =
     (case s of
        [] \<Rightarrow> None
      | c # cs \<Rightarrow>
          if c = CHR ''0'' \<and> cs \<noteq> [] then None
          else (case parseDigits 0 s of
                  None \<Rightarrow> None
                | Some n \<Rightarrow> if n < 2 ^ 32 - 1 then Some n else None))"

definition indexed :: "string \<times> 'v \<Rightarrow> (nat \<times> string \<times> 'v) option" where
  "indexed p = (case arrayIndex (fst p) of None \<Rightarrow> None | Some n \<Rightarrow> Some (n, p))"

definition objectEntries :: "'v jsobject \<Rightarrow> (string \<times> 'v) list" where
  "objectEntries obj =
     map snd (sort_key fst (List.map_filter indexed obj))
     @ filter (\<lambda>p. arrayIndex (fst p) = None) obj"

definition objectKeys :: "'v jsobject \<Rightarrow> string list" where
  "objectKeys obj = map fst (objectEntries obj)"

text \<open>
  Property assignment \<^verbatim>\<open>obj[k] = v\<close> on an own or absent data property: an existing own
  property keeps its place, a new one is created last.
\<close>

fun setProp :: "'v jsobject \<Rightarrow> string \<Rightarrow> 'v \<Rightarrow> 'v jsobject" where
  "setProp [] k v = [(k, v)]"
| "setProp (p # ps) k v = (if fst p = k then (k, v) # ps else p # setProp ps k v)"

text \<open>
  \<^verbatim>\<open>Array.prototype.map\<close> with the callback's index argument.
\<close>

definition mapIdx :: "('a \<Rightarrow> nat \<Rightarrow> 'b) \<Rightarrow> 'a list \<Rightarrow> 'b list" where
  "mapIdx f xs = map (\<lambda>(idx, x). f x idx) (enumerate 0 xs)"

text \<open>Decimal rendering of a natural number, as a template literal prints it.\<close>

fun toDecimal :: "nat \<Rightarrow> string" where
  "toDecimal n =
     (if n < 10 then [''0123456789'' ! n]
      else toDecimal (n div 10) @ [''0123456789'' ! (n mod 10)])"

section \<open>ThreatCharts: the aggregations\<close>

subsection \<open>processTimeline\<close>

record TimelinePoint =
  time :: string
  threats :: nat
  normal :: nat

definition processTimeline :: "Event list \<Rightarrow> TimelinePoint list" where
  "processTimeline events =
     mapIdx (\<lambda>event idx.
       \<lparr>time = ''T'' @ toDecimal (idx + 1),
        threats = (if is_suspicious event then 1 else 0),
        normal = (if is_suspicious event then 0 else 1)\<rparr>) events"

subsection \<open>processUserActivity and processActionDistribution\<close>

text \<open>
  Both functions start from the object literal \<^verbatim>\<open>{}\<close> and run, for each event,
  \<^verbatim>\<open>counts[key] = (counts[key] || 0) + 1\<close>.
  The read \<^verbatim>\<open>counts[key]\<close> follows the prototype chain: for a key that is not an own property
  but names a property of \<^verbatim>\<open>Object.prototype\<close> it yields that inherited function or object,
  which is truthy, and \<^verbatim>\<open>+ 1\<close> then concatenates strings. The text of such a string depends
  on how the engine prints a built-in function; the model keeps only that it is a string and
  not a number. Assigning a string to \<^verbatim>\<open>__proto__\<close> runs the inherited setter, which ignores a
  value that is not an object, so no own property appears.
\<close>

datatype counter = Number nat | StringValue

datatype 'v lookup = Own 'v | Inherited | Undefined

definition objectPrototypeKeys :: "string list" where
  "objectPrototypeKeys =
     [''constructor'', ''__defineGetter__'', ''__defineSetter__'', ''hasOwnProperty'',
      ''__lookupGetter__'', ''__lookupSetter__'', ''isPrototypeOf'', ''propertyIsEnumerable'',
      ''toString'', ''valueOf'', ''__proto__'', ''toLocaleString'']"

definition getProp :: "'v jsobject \<Rightarrow> string \<Rightarrow> 'v lookup" where
  "getProp obj k =
     (case map_of obj k of
        Some v \<Rightarrow> Own v
      | None \<Rightarrow> if k \<in> set objectPrototypeKeys then Inherited else Undefined)"

text \<open>\<^verbatim>\<open>(counts[key] || 0) + 1\<close>\<close>

fun orZeroPlusOne :: "counter lookup \<Rightarrow> counter" where
  "orZeroPlusOne (Own (Number n)) = Number (n + 1)"
| "orZeroPlusOne (Own StringValue) = StringValue"
| "orZeroPlusOne Inherited = StringValue"
| "orZeroPlusOne Undefined = Number 1"

definition assignProp :: "counter jsobject \<Rightarrow> string \<Rightarrow> counter \<Rightarrow> counter jsobject" where
  "assignProp obj k v = (if k = ''__proto__'' then obj else setProp obj k v)"

definition increment :: "string \<Rightarrow> counter jsobject \<Rightarrow> counter jsobject" where
  "increment k counts = assignProp counts k (orZeroPlusOne (getProp counts k))"

record UserActivityPoint =
  user :: string
  actions :: counter

definition processUserActivity :: "Event list \<Rightarrow> UserActivityPoint list" where
  "processUserActivity events =
     (let userCounts = fold (\<lambda>event. increment (user_id event)) events []
      in map (\<lambda>(user, actions). \<lparr>user = take 15 user, actions = actions\<rparr>)
           (take 5 (objectEntries userCounts)))"

record 'v CategoryPoint =
  name :: string
  pointValue :: 'v

definition processActionDistribution :: "Event list \<Rightarrow> counter CategoryPoint list" where
  "processActionDistribution events =
     (let actionCounts = fold (\<lambda>event. increment (action event)) events []
      in map (\<lambda>(name, v). \<lparr>name = name, pointValue = v\<rparr>) (objectEntries actionCounts))"

subsection \<open>The live-events payload and processAttackTypes\<close>

text \<open>
  The body of \<^verbatim>\<open>GET /api/live-events\<close>. The code reads each field behind \<^verbatim>\<open>|| []\<close>, \<^verbatim>\<open>|| {}\<close>
  or \<^verbatim>\<open>|| 0\<close>, so each may be absent.
\<close>

record LiveEventsData =
  events :: "Event list option"
  attack_types :: "real jsobject option"
  total_events :: "real option"
  suspicious_count :: "real option"

definition processAttackTypes :: "LiveEventsData \<Rightarrow> real CategoryPoint list" where
  "processAttackTypes data =
     (let attackTypes = (case attack_types data of None \<Rightarrow> [] | Some obj \<Rightarrow> obj)
      in map (\<lambda>(name, v). \<lparr>name = name, pointValue = v\<rparr>) (objectEntries attackTypes))"

section \<open>Requests\<close>

text \<open>
  What \<^verbatim>\<open>await fetch(url)\<close> followed by \<^verbatim>\<open>await response.json()\<close> can do: the fetch promise
  rejects (no response), or it resolves to a response with its \<^verbatim>\<open>ok\<close> flag; the body then
  either decodes to a payload or \<^verbatim>\<open>json()\<close> rejects (\<^const>\<open>None\<close>).
\<close>

datatype 'a fetchResult = Rejected | Resolved bool "'a option"

datatype failure = FetchRejected | Thrown string | JsonRejected

text \<open>\<^verbatim>\<open>fetch(url).then(r => r.json())\<close>: the status is not looked at.\<close>

definition fetchJson :: "'a fetchResult \<Rightarrow> failure + 'a" where
  "fetchJson r =
     (case r of
        Rejected \<Rightarrow> Inl FetchRejected
      | Resolved ok body \<Rightarrow> (case body of None \<Rightarrow> Inl JsonRejected | Some v \<Rightarrow> Inr v))"

text \<open>\<^verbatim>\<open>getTestData\<close> and \<^verbatim>\<open>getHealth\<close> of \<^verbatim>\<open>services/api.ts\<close> throw on a response that is not ok.\<close>

definition getTestData :: "'a fetchResult \<Rightarrow> failure + 'a" where
  "getTestData r =
     (case r of
        Rejected \<Rightarrow> Inl FetchRejected
      | Resolved ok body \<Rightarrow>
          if \<not> ok then Inl (Thrown ''Failed to fetch data'')
          else (case body of None \<Rightarrow> Inl JsonRejected | Some v \<Rightarrow> Inr v))"

definition getHealth :: "'a fetchResult \<Rightarrow> failure + 'a" where
  "getHealth r =
     (case r of
        Rejected \<Rightarrow> Inl FetchRejected
      | Resolved ok body \<Rightarrow>
          if \<not> ok then Inl (Thrown ''Failed to fetch health status'')
          else (case body of None \<Rightarrow> Inl JsonRejected | Some v \<Rightarrow> Inr v))"

section \<open>ThreatCharts: the fetch cycle\<close>

record ChartData =
  timeline :: "TimelinePoint list"
  userActivity :: "UserActivityPoint list"
  actionDistribution :: "counter CategoryPoint list"
  attackTypes :: "real CategoryPoint list"

text \<open>The value handed to \<^verbatim>\<open>setChartData\<close> for a decoded payload.\<close>

definition chartsOf :: "LiveEventsData \<Rightarrow> ChartData" where
  "chartsOf data =
     (let evs = (case events data of None \<Rightarrow> [] | Some es \<Rightarrow> es)
      in \<lparr>timeline = processTimeline evs,
          userActivity = processUserActivity evs,
          actionDistribution = processActionDistribution evs,
          attackTypes = processAttackTypes data\<rparr>)"

text \<open>
  One run of \<^verbatim>\<open>fetchChartData\<close> on the component state \<^verbatim>\<open>chartData\<close>: the \<^verbatim>\<open>catch\<close> branch only
  logs.
\<close>

definition fetchChartData :: "LiveEventsData fetchResult \<Rightarrow> ChartData option \<Rightarrow> ChartData option" where
  "fetchChartData r chartData =
     (case fetchJson r of
        Inl err \<Rightarrow> chartData
      | Inr data \<Rightarrow> Some (chartsOf data))"

datatype chartsScreen = LoadingAnalytics | Charts ChartData

definition renderThreatCharts :: "ChartData option \<Rightarrow> chartsScreen" where
  "renderThreatCharts chartData =
     (case chartData of None \<Rightarrow> LoadingAnalytics | Some c \<Rightarrow> Charts c)"

section \<open>LiveEvents: the prediction fan-out\<close>

text \<open>
  The callback of \<^verbatim>\<open>rawEvents.map\<close>: one \<^verbatim>\<open>POST /api/predict\<close> for the event, whose own
  \<^verbatim>\<open>try/catch\<close> returns the event as it came when the request or the decoding fails.
\<close>

definition withPrediction :: "MlPrediction fetchResult \<Rightarrow> Event \<Rightarrow> Event" where
  "withPrediction r event =
     (case fetchJson r of
        Inl err \<Rightarrow> event
      | Inr p \<Rightarrow> event\<lparr>ml_prediction := Some p\<rparr>)"

text \<open>
  \<^verbatim>\<open>Promise.all(rawEvents.map(...))\<close>: the result array has the callbacks' values at the
  positions of their events, in whatever order the requests complete. \<open>predict idx event\<close>
  is what the request issued for the event at position \<open>idx\<close> does. No callback rejects, so
  \<^verbatim>\<open>Promise.all\<close> never does.
\<close>

definition eventsWithPredictions ::
  "(nat \<Rightarrow> Event \<Rightarrow> MlPrediction fetchResult) \<Rightarrow> Event list \<Rightarrow> Event list" where
  "eventsWithPredictions predict rawEvents =
     mapIdx (\<lambda>event idx. withPrediction (predict idx event) event) rawEvents"

record Stats =
  total :: real
  suspicious :: real

record LiveEventsState =
  shownEvents :: "Event list"
  stats :: Stats

definition fetchEventsWithPredictions ::
  "LiveEventsData fetchResult \<Rightarrow> (nat \<Rightarrow> Event \<Rightarrow> MlPrediction fetchResult) \<Rightarrow>
   LiveEventsState \<Rightarrow> LiveEventsState" where
  "fetchEventsWithPredictions r predict st =
     (case fetchJson r of
        Inl err \<Rightarrow> st
      | Inr data \<Rightarrow>
          (let rawEvents = (case events data of None \<Rightarrow> [] | Some es \<Rightarrow> es)
           in \<lparr>shownEvents = eventsWithPredictions predict rawEvents,
               stats = \<lparr>total = (case total_events data of None \<Rightarrow> 0 | Some n \<Rightarrow> if n = 0 then 0 else n),
                        suspicious = (case suspicious_count data of None \<Rightarrow> 0
                                      | Some n \<Rightarrow> if n = 0 then 0 else n)\<rparr>\<rparr>))"

section \<open>ROCCurve\<close>

text \<open>
  \<^verbatim>\<open>interface ROCData\<close>. The component renders nothing while \<^verbatim>\<open>rocData\<close> is \<^verbatim>\<open>null\<close> or its
  \<^verbatim>\<open>fpr\<close> is \<^verbatim>\<open>undefined\<close>, so \<^verbatim>\<open>fpr\<close> may be absent.
\<close>

record ROCData =
  fpr :: "real list option"
  tpr :: "real list"
  thresholds :: "real list"
  auc :: real
  quality :: string

text \<open>Reading an array at an index: \<^verbatim>\<open>undefined\<close> outside the array.\<close>

definition elemAt :: "'a list \<Rightarrow> nat \<Rightarrow> 'a option" where
  "elemAt xs idx = (if idx < length xs then Some (xs ! idx) else None)"

record ROCPoint =
  point_fpr :: real
  point_tpr :: "real option"
  point_threshold :: "real option"

definition chartData :: "ROCData \<Rightarrow> real list \<Rightarrow> ROCPoint list" where
  "chartData rocData fprs =
     mapIdx (\<lambda>f idx.
       \<lparr>point_fpr = f,
        point_tpr = elemAt (tpr rocData) idx,
        point_threshold = elemAt (thresholds rocData) idx\<rparr>) fprs"

definition referenceData :: "(real \<times> real) list" where
  "referenceData = [(0, 0), (1, 1)]"

subsection \<open>getAUCColor\<close>

definition getAUCColor :: "real \<Rightarrow> string" where
  "getAUCColor = (\<lambda>auc.
     if auc \<ge> 0.95 then ''green''
     else if auc \<ge> 0.90 then ''blue''
     else if auc \<ge> 0.80 then ''orange''
     else ''red'')"

text \<open>
  What one render of the component computes: nothing behind the guard, else the curve's
  points, the reference diagonal and the badge colour.
\<close>

record ROCView =
  curve :: "ROCPoint list"
  diagonal :: "(real \<times> real) list"
  badge :: string

definition renderROCCurve :: "ROCData option \<Rightarrow> ROCView option" where
  "renderROCCurve rocData =
     (case rocData of
        None \<Rightarrow> None
      | Some d \<Rightarrow>
          (case fpr d of
             None \<Rightarrow> None
           | Some fprs \<Rightarrow>
               Some \<lparr>curve = chartData d fprs, diagonal = referenceData,
                     badge = getAUCColor (auc d)\<rparr>))"

section \<open>App: the Dashboard component\<close>

text \<open>
  \<^verbatim>\<open>TestData\<close> carries \<^verbatim>\<open>message\<close>, \<^verbatim>\<open>data.total_events\<close>, \<^verbatim>\<open>data.anomalies\<close> and
  \<^verbatim>\<open>data.accuracy\<close>; \<^verbatim>\<open>HealthData\<close> carries \<^verbatim>\<open>status\<close> and \<^verbatim>\<open>services.api\<close>.
\<close>

datatype TestData = TestData string real real real

datatype HealthData = HealthData string string

record NosyAdminData =
  nosy_admins :: "real jsobject option"
  threshold :: real
  total_admin_reads :: real

text \<open>The component state; \<^verbatim>\<open>lastUpdate\<close> is a reading of the clock.\<close>

record Dashboard =
  testData :: "TestData option"
  healthData :: "HealthData option"
  nosyAdmins :: "NosyAdminData option"
  loading :: bool
  error :: "string option"
  lastUpdate :: nat

definition initialDashboard :: "nat \<Rightarrow> Dashboard" where
  "initialDashboard now =
     \<lparr>testData = None, healthData = None, nosyAdmins = None, loading = True, error = None,
      lastUpdate = now\<rparr>"

text \<open>
  One run of \<^verbatim>\<open>fetchData\<close>. \<^verbatim>\<open>Promise.all\<close> rejects as soon as one of the three promises
  does, and the \<^verbatim>\<open>catch\<close> branch then sets \<^verbatim>\<open>error\<close> and clears \<^verbatim>\<open>loading\<close>; the \<^verbatim>\<open>try\<close> branch
  calls the five setters of the data, the clock and \<^verbatim>\<open>loading\<close>.
\<close>

definition fetchData ::
  "nat \<Rightarrow> TestData fetchResult \<Rightarrow> HealthData fetchResult \<Rightarrow> NosyAdminData fetchResult \<Rightarrow>
   Dashboard \<Rightarrow> Dashboard" where
  "fetchData now t h n s =
     (case (getTestData t, getHealth h, fetchJson n) of
        (Inr test, Inr health, Inr nosyAdmin) \<Rightarrow>
          s\<lparr>testData := Some test, healthData := Some health, nosyAdmins := Some nosyAdmin,
            lastUpdate := now, loading := False\<rparr>
      | _ \<Rightarrow> s\<lparr>error := Some ''Failed to connect to backend'', loading := False\<rparr>)"

text \<open>\<^verbatim>\<open>nosyAdmins && Object.keys(nosyAdmins.nosy_admins || {}).length > 0\<close>, as a truth value.\<close>

definition hasNosyAdmins :: "NosyAdminData option \<Rightarrow> bool" where
  "hasNosyAdmins = (\<lambda>nosyAdmins.
     case nosyAdmins of
       None \<Rightarrow> False
     | Some d \<Rightarrow>
         length (objectKeys (case nosy_admins d of None \<Rightarrow> [] | Some obj \<Rightarrow> obj)) > 0)"

text \<open>
  The three screens of the component: the spinner while \<^verbatim>\<open>loading\<close>, the connection-error
  box when \<^verbatim>\<open>error\<close> is truthy (a string that is not empty), else the dashboard itself with
  the stored data and the alert flag.
\<close>

datatype screen =
  Initializing
  | ConnectionError string
  | MainScreen "TestData option" "HealthData option" "NosyAdminData option" nat bool

definition mainScreen :: "Dashboard \<Rightarrow> screen" where
  "mainScreen s =
     MainScreen (testData s) (healthData s) (nosyAdmins s) (lastUpdate s)
       (hasNosyAdmins (nosyAdmins s))"

definition render :: "Dashboard \<Rightarrow> screen" where
  "render s =
     (if loading s then Initializing
      else (case error s of
              None \<Rightarrow> mainScreen s
            | Some msg \<Rightarrow> if msg = [] then mainScreen s else ConnectionError msg))"

text \<open>
  The interval timer runs \<^verbatim>\<open>fetchData\<close> again and again; a cycle is the clock reading and
  what its three requests do.
\<close>

type_synonym cycle =
  "nat \<times> TestData fetchResult \<times> HealthData fetchResult \<times> NosyAdminData fetchResult"

definition runCycle :: "cycle \<Rightarrow> Dashboard \<Rightarrow> Dashboard" where
  "runCycle c s = (case c of (now, t, h, n) \<Rightarrow> fetchData now t h n s)"

definition runCycles :: "cycle list \<Rightarrow> Dashboard \<Rightarrow> Dashboard" where
  "runCycles cs s = fold runCycle cs s"

section \<open>Reference definitions\<close>

text \<open>
  The definitions below are not taken from the code: they write down what the specification
  says, to compare the code with.
\<close>

text \<open>
  The specification's \<open>AlertState\<close>: some admin's read count in the counter mapping is
  above the threshold.
\<close>

definition alertStateSpec :: "NosyAdminData \<Rightarrow> bool" where
  "alertStateSpec d =
     list_ex (\<lambda>(u, n). n > threshold d) (case nosy_admins d of None \<Rightarrow> [] | Some obj \<Rightarrow> obj)"

text \<open>The distinct elements of a list in the order of their first occurrence.\<close>

fun firstSeen :: "'a list \<Rightarrow> 'a list" where
  "firstSeen [] = []"
| "firstSeen (x # xs) = x # removeAll x (firstSeen xs)"

text \<open>
  The specification's user activity: the first five distinct user ids in encounter order,
  each with the number of the batch's events of that user, the name cut to fifteen
  characters.
\<close>

definition userActivitySpec :: "Event list \<Rightarrow> UserActivityPoint list" where
  "userActivitySpec batch =
     (let users = map user_id batch
      in map (\<lambda>u. \<lparr>user = take 15 u, actions = Number (count_list users u)\<rparr>)
           (take 5 (firstSeen users)))"

text \<open>
  A user id that the counting object treats as an ordinary dictionary key: not an array
  index and not the name of a property every object inherits.
\<close>

definition plainKey :: "string \<Rightarrow> bool" where
  "plainKey k = (arrayIndex k = None \<and> k \<notin> set objectPrototypeKeys)"

text \<open>
  A key the counting loop counts as a number: not the name of a property every object
  inherits.
\<close>

definition ownKey :: "string \<Rightarrow> bool" where
  "ownKey k = (k \<notin> set objectPrototypeKeys)"

text \<open>
  The count object as a dictionary would hold it: the distinct keys in the order of their first
  occurrence, each with the number of its occurrences.
\<close>

definition tally :: "string list \<Rightarrow> counter jsobject" where
  "tally ks = map (\<lambda>u. (u, Number (count_list ks u))) (firstSeen ks)"

text \<open>The quality buckets from worst to best.\<close>

definition bucketRank :: "string \<Rightarrow> nat" where
  "bucketRank c =
     (if c = ''green'' then 3 else if c = ''blue'' then 2 else if c = ''orange'' then 1 else 0)"

text \<open>
  When a request chain rejects, read off what the request did. A chain that does not look at
  the status rejects when the fetch is rejected or the body does not decode; a chain that
  throws on a response that is not ok rejects on such a response as well.
\<close>

definition chainRejects :: "'a fetchResult \<Rightarrow> bool" where
  "chainRejects r = (case r of Rejected \<Rightarrow> True | Resolved ok body \<Rightarrow> body = None)"

definition checkedChainRejects :: "'a fetchResult \<Rightarrow> bool" where
  "checkedChainRejects r =
     (case r of Rejected \<Rightarrow> True | Resolved ok body \<Rightarrow> (if ok then body = None else True))"

text \<open>A cycle of the Dashboard fails when one of its three promises rejects.\<close>

definition cycleFails ::
  "TestData fetchResult \<Rightarrow> HealthData fetchResult \<Rightarrow> NosyAdminData fetchResult \<Rightarrow> bool" where
  "cycleFails t h n = (isl (getTestData t) \<or> isl (getHealth h) \<or> isl (fetchJson n))"

section \<open>Example data\<close>

definition sampleEvent :: "string \<Rightarrow> string \<Rightarrow> bool \<Rightarrow> Event" where
  "sampleEvent u a s =
     \<lparr>timestamp = ''2024-05-01T10:00:00'', user_id = u, action = a,
      table_name = ''meter_readings'', is_suspicious = s, ml_prediction = None\<rparr>"

text \<open>A fan-out whose first request succeeds, whose second is rejected and whose others
  answer with a body that does not decode.\<close>

definition samplePredict :: "nat \<Rightarrow> Event \<Rightarrow> MlPrediction fetchResult" where
  "samplePredict idx event =
     (if idx = 0 then Resolved True (Some \<lparr>prediction = ''suspicious'', confidence = 0.9\<rparr>)
      else if idx = 1 then Rejected
      else Resolved False None)"

text \<open>A fan-out in which every request is answered with a status that is not ok and a body
  that decodes.\<close>

definition unavailablePredict :: "nat \<Rightarrow> Event \<Rightarrow> MlPrediction fetchResult" where
  "unavailablePredict idx event =
     Resolved False (Some \<lparr>prediction = ''unavailable'', confidence = 0\<rparr>)"

text \<open>Payloads of the summary endpoints, and a Dashboard that shows them.\<close>

definition sampleTest :: TestData where
  "sampleTest = TestData ''Backend is running'' 1000 37 0.96"

definition sampleHealth :: HealthData where
  "sampleHealth = HealthData ''healthy'' ''running''"

definition sampleNosy :: NosyAdminData where
  "sampleNosy = \<lparr>nosy_admins = Some [(''admin_7'', 12)], threshold = 5, total_admin_reads = 12\<rparr>"

definition readyDashboard :: Dashboard where
  "readyDashboard =
     \<lparr>testData = Some sampleTest, healthData = Some sampleHealth, nosyAdmins = Some sampleNosy,
      loading = False, error = None, lastUpdate = 1\<rparr>"

definition sampleData :: LiveEventsData where
  "sampleData =
     \<lparr>events = Some [sampleEvent ''alice'' ''READ'' True, sampleEvent ''bob'' ''READ'' False],
      attack_types = Some [(''sql_injection'', 1)], total_events = Some 2,
      suspicious_count = Some 1\<rparr>"

text \<open>The batch of users A, B, A, C, B, D, E, F.\<close>

definition abBatch :: "Event list" where
  "abBatch = map (\<lambda>u. sampleEvent u ''READ'' False)
     [''A'', ''B'', ''A'', ''C'', ''B'', ''D'', ''E'', ''F'']"

section \<open>Properties\<close>

subsection \<open>Mapping with an index\<close>

lemma length_mapIdx: "length (mapIdx f xs) = length xs"
  by (simp add: mapIdx_def)

lemma nth_mapIdx: "i < length xs \<Longrightarrow> mapIdx f xs ! i = f (xs ! i) i"
  by (simp add: mapIdx_def nth_enumerate_eq)

lemma map_mapIdx: "map g (mapIdx f xs) = mapIdx (\<lambda>x i. g (f x i)) xs"
  by (simp add: mapIdx_def case_prod_unfold comp_def)

lemma mapIdx_const: "mapIdx (\<lambda>x i. g x) xs = map g xs"
  by (rule nth_equalityI) (simp_all add: length_mapIdx nth_mapIdx)

subsection \<open>The AUC badge\<close>

text \<open>
  Claim C6. \<^verbatim>\<open>getAUCColor\<close> is exact at its boundaries and monotonic: green exactly from
  0.95 on, blue exactly on [0.90, 0.95), orange exactly on [0.80, 0.90), red exactly below
  0.80; so 0.95 is green, 0.9499 blue, 0.8999 orange and 0.79 red, and a larger AUC never gets
  a worse bucket.
\<close>

theorem getAUCColor_buckets:
  "(getAUCColor a = ''green'' \<longleftrightarrow> a \<ge> 0.95) \<and>
   (getAUCColor a = ''blue'' \<longleftrightarrow> 0.90 \<le> a \<and> a < 0.95) \<and>
   (getAUCColor a = ''orange'' \<longleftrightarrow> 0.80 \<le> a \<and> a < 0.90) \<and>
   (getAUCColor a = ''red'' \<longleftrightarrow> \<not> a \<ge> 0.80) \<and>
   getAUCColor 0.95 = ''green'' \<and> getAUCColor 0.9499 = ''blue'' \<and>
   getAUCColor 0.8999 = ''orange'' \<and> getAUCColor 0.79 = ''red'' \<and>
   (a \<le> b \<longrightarrow> bucketRank (getAUCColor a) \<le> bucketRank (getAUCColor b))"
  by (auto simp: getAUCColor_def bucketRank_def)

theorem getAUCColor_buckets_witness:
  "(0.85::real) \<le> 0.92 \<and> getAUCColor 0.85 = ''orange'' \<and> getAUCColor 0.92 = ''blue'' \<and>
   bucketRank (getAUCColor 0.85) \<le> bucketRank (getAUCColor 0.92)"
  using getAUCColor_buckets [of "0.85" "0.92"] by (simp add: getAUCColor_def)

subsection \<open>The timeline\<close>

text \<open>
  Claim C7. \<^verbatim>\<open>processTimeline\<close> yields one point per event, in input order: the point at
  position \<open>i\<close> has \<open>threats = 1\<close> and \<open>normal = 0\<close> when event \<open>i\<close> is suspicious, and
  \<open>threats = 0\<close> and \<open>normal = 1\<close> otherwise.
\<close>

theorem processTimeline_pointwise:
  "length (processTimeline es) = length es \<and>
   (\<forall>i < length es.
      threats (processTimeline es ! i) = (if is_suspicious (es ! i) then 1 else 0) \<and>
      normal (processTimeline es ! i) = (if is_suspicious (es ! i) then 0 else 1) \<and>
      time (processTimeline es ! i) = ''T'' @ toDecimal (i + 1)) \<and>
   map threats (processTimeline es) = map (\<lambda>e. if is_suspicious e then 1 else 0) es \<and>
   map normal (processTimeline es) = map (\<lambda>e. if is_suspicious e then 0 else 1) es"
  by (simp add: processTimeline_def length_mapIdx nth_mapIdx map_mapIdx mapIdx_const
      del: toDecimal.simps)

text \<open>The scenario \<open>is_suspicious = [true, false, true]\<close>.\<close>

theorem processTimeline_pointwise_witness:
  "length (processTimeline
     [sampleEvent ''alice'' ''READ'' True, sampleEvent ''bob'' ''READ'' False,
      sampleEvent ''carol'' ''UPDATE'' True]) = 3 \<and>
   map (\<lambda>p. (threats p, normal p)) (processTimeline
     [sampleEvent ''alice'' ''READ'' True, sampleEvent ''bob'' ''READ'' False,
      sampleEvent ''carol'' ''UPDATE'' True]) = [(1, 0), (0, 1), (1, 0)] \<and>
   time (processTimeline
     [sampleEvent ''alice'' ''READ'' True, sampleEvent ''bob'' ''READ'' False,
      sampleEvent ''carol'' ''UPDATE'' True] ! 2) = ''T3''"
  using processTimeline_pointwise
    [of "[sampleEvent ''alice'' ''READ'' True, sampleEvent ''bob'' ''READ'' False,
          sampleEvent ''carol'' ''UPDATE'' True]"]
  by (simp add: processTimeline_def mapIdx_def sampleEvent_def)

subsection \<open>User activity\<close>

lemma set_firstSeen: "set (firstSeen xs) = set xs"
  by (induction xs) auto

lemma distinct_firstSeen: "distinct (firstSeen xs)"
  by (induction xs) (auto simp: distinct_removeAll)

lemma firstSeen_snoc:
  "firstSeen (xs @ [k]) = (if k \<in> set xs then firstSeen xs else firstSeen xs @ [k])"
  by (induction xs) (auto simp: set_firstSeen)

lemma setProp_graph:
  "distinct xs \<Longrightarrow>
   setProp (map (\<lambda>u. (u, g u)) xs) k v =
     (if k \<in> set xs then map (\<lambda>u. (u, if u = k then v else g u)) xs
      else map (\<lambda>u. (u, g u)) xs @ [(k, v)])"
  by (induction xs) auto

lemma map_of_graph:
  "map_of (map (\<lambda>u. (u, g u)) xs) k = (if k \<in> set xs then Some (g k) else None)"
  by (induction xs) auto

lemma ownKey_not_proto: "ownKey k \<Longrightarrow> k \<noteq> ''__proto__''"
  by (auto simp: ownKey_def objectPrototypeKeys_def)

lemma increment_tally:
  assumes "ownKey k"
  shows "increment k (tally vs) = tally (vs @ [k])"
proof -
  have notproto: "k \<notin> set objectPrototypeKeys" using assms by (simp add: ownKey_def)
  have new: "orZeroPlusOne (getProp (tally vs) k) = Number (count_list vs k + 1)"
    by (simp add: getProp_def tally_def map_of_graph set_firstSeen notproto)
  have "increment k (tally vs) = setProp (tally vs) k (Number (count_list vs k + 1))"
    by (simp add: increment_def assignProp_def ownKey_not_proto [OF assms] new)
  also have "\<dots> = tally (vs @ [k])"
    by (auto simp: tally_def setProp_graph distinct_firstSeen set_firstSeen firstSeen_snoc)
  finally show ?thesis .
qed

lemma fold_increment_tally:
  "list_all ownKey ks \<Longrightarrow> fold increment ks (tally vs) = tally (vs @ ks)"
proof (induction ks arbitrary: vs)
  case Nil
  then show ?case by simp
next
  case (Cons k ks)
  then have "fold increment ks (tally (vs @ [k])) = tally ((vs @ [k]) @ ks)" by simp
  with Cons.prems show ?case by (simp add: increment_tally)
qed

lemma objectEntries_plain:
  "list_all (\<lambda>p. arrayIndex (fst p) = None) obj \<Longrightarrow> objectEntries obj = obj"
proof -
  assume a: "list_all (\<lambda>p. arrayIndex (fst p) = None) obj"
  then have "List.map_filter indexed obj = []"
    by (induction obj) (auto simp: List.map_filter_simps indexed_def)
  moreover from a have "filter (\<lambda>p. arrayIndex (fst p) = None) obj = obj"
    by (induction obj) auto
  ultimately show ?thesis by (simp add: objectEntries_def)
qed

lemma length_processUserActivity: "length (processUserActivity es) \<le> 5"
  by (simp add: processUserActivity_def Let_def)

lemma user_processUserActivity:
  "list_all (\<lambda>p. length (user p) \<le> 15) (processUserActivity es)"
  by (auto simp: processUserActivity_def Let_def list_all_iff)

lemma processUserActivity_own:
  assumes "list_all (\<lambda>e. ownKey (user_id e)) es"
  shows "processUserActivity es =
     map (\<lambda>(u, n). \<lparr>user = take 15 u, actions = n\<rparr>)
       (take 5 (objectEntries (tally (map user_id es))))"
proof -
  let ?ks = "map user_id es"
  from assms have own: "list_all ownKey ?ks"
    by (simp add: list_all_iff)
  have "fold (\<lambda>event. increment (user_id event)) es [] = fold increment ?ks (tally [])"
    by (simp add: fold_map comp_def tally_def)
  also have "\<dots> = tally ?ks"
    using fold_increment_tally [OF own, of "[]"] by simp
  finally show ?thesis
    by (simp add: processUserActivity_def Let_def)
qed

lemma plainKey_ownKey: "plainKey k \<Longrightarrow> ownKey k"
  by (simp add: plainKey_def ownKey_def)

lemma processUserActivity_plain:
  assumes "list_all (\<lambda>e. plainKey (user_id e)) es"
  shows "processUserActivity es = userActivitySpec es"
proof -
  let ?ks = "map user_id es"
  from assms have own: "list_all (\<lambda>e. ownKey (user_id e)) es"
    by (simp add: list_all_iff plainKey_ownKey)
  from assms have "list_all (\<lambda>p. arrayIndex (fst p) = None) (tally ?ks)"
    by (auto simp: tally_def list_all_iff set_firstSeen plainKey_def)
  then have entries: "objectEntries (tally ?ks) = tally ?ks"
    by (rule objectEntries_plain)
  have "processUserActivity es =
      map (\<lambda>(u, n). \<lparr>user = take 15 u, actions = n\<rparr>) (take 5 (tally ?ks))"
    by (simp add: processUserActivity_own [OF own] entries)
  also have "\<dots> = userActivitySpec es"
    by (simp add: userActivitySpec_def Let_def tally_def take_map comp_def)
  finally show ?thesis .
qed

lemmas userActivity_eval =
  processUserActivity_def userActivitySpec_def increment_def assignProp_def getProp_def
  objectPrototypeKeys_def objectEntries_def indexed_def arrayIndex_def digitOf_def
  sampleEvent_def

text \<open>
  Claim C4 says that the user activity is always the first five distinct user ids in
  encounter order. For user ids that are decimal numbers it is not: the count object lists
  such keys in ascending numeric order, so the batch of users 1002, 1001 yields 1001 before
  1002.
\<close>

theorem processUserActivity_numeric_ids_counterexample:
  "processUserActivity
     [sampleEvent ''1002'' ''READ'' False, sampleEvent ''1001'' ''READ'' False] =
     [\<lparr>user = ''1001'', actions = Number 1\<rparr>, \<lparr>user = ''1002'', actions = Number 1\<rparr>] \<and>
   userActivitySpec
     [sampleEvent ''1002'' ''READ'' False, sampleEvent ''1001'' ''READ'' False] =
     [\<lparr>user = ''1002'', actions = Number 1\<rparr>, \<lparr>user = ''1001'', actions = Number 1\<rparr>] \<and>
   processUserActivity
     [sampleEvent ''1002'' ''READ'' False, sampleEvent ''1001'' ''READ'' False] \<noteq>
   userActivitySpec
     [sampleEvent ''1002'' ''READ'' False, sampleEvent ''1001'' ''READ'' False]"
  by (simp add: userActivity_eval)

text \<open>
  Claim C4, amended. \<^verbatim>\<open>processUserActivity\<close> returns at most five points, each name at most
  fifteen characters long. When no user id names an inherited object property, the points
  are the first five entries of the count object in its own-property order (array-index
  user ids first in ascending numeric order, the others after them in encounter order), each
  with the number of the user's events in the whole batch. When moreover no user id is an
  array index, they are the first five distinct user ids in encounter order with these
  counts, so that the users A, B, A, C, B, D, E, F yield A:2, B:2, C:1, D:1, E:1.
\<close>

theorem processUserActivity_first_five:
  "length (processUserActivity es) \<le> 5 \<and>
   list_all (\<lambda>p. length (user p) \<le> 15) (processUserActivity es) \<and>
   (list_all (\<lambda>e. ownKey (user_id e)) es \<longrightarrow>
      processUserActivity es =
        map (\<lambda>(u, n). \<lparr>user = take 15 u, actions = n\<rparr>)
          (take 5 (objectEntries (tally (map user_id es))))) \<and>
   (list_all (\<lambda>e. plainKey (user_id e)) es \<longrightarrow> processUserActivity es = userActivitySpec es)"
  using length_processUserActivity user_processUserActivity processUserActivity_own
    processUserActivity_plain by blast

theorem processUserActivity_first_five_witness:
  "list_all (\<lambda>e. plainKey (user_id e)) abBatch \<and>
   list_all (\<lambda>e. ownKey (user_id e)) abBatch \<and>
   userActivitySpec abBatch =
     [\<lparr>user = ''A'', actions = Number 2\<rparr>, \<lparr>user = ''B'', actions = Number 2\<rparr>,
      \<lparr>user = ''C'', actions = Number 1\<rparr>, \<lparr>user = ''D'', actions = Number 1\<rparr>,
      \<lparr>user = ''E'', actions = Number 1\<rparr>] \<and>
   processUserActivity abBatch =
     [\<lparr>user = ''A'', actions = Number 2\<rparr>, \<lparr>user = ''B'', actions = Number 2\<rparr>,
      \<lparr>user = ''C'', actions = Number 1\<rparr>, \<lparr>user = ''D'', actions = Number 1\<rparr>,
      \<lparr>user = ''E'', actions = Number 1\<rparr>]"
proof -
  have plain: "list_all (\<lambda>e. plainKey (user_id e)) abBatch"
    by (simp add: abBatch_def sampleEvent_def plainKey_def arrayIndex_def digitOf_def
        objectPrototypeKeys_def)
  have own: "list_all (\<lambda>e. ownKey (user_id e)) abBatch"
    by (simp add: abBatch_def sampleEvent_def ownKey_def objectPrototypeKeys_def)
  have spec: "userActivitySpec abBatch =
     [\<lparr>user = ''A'', actions = Number 2\<rparr>, \<lparr>user = ''B'', actions = Number 2\<rparr>,
      \<lparr>user = ''C'', actions = Number 1\<rparr>, \<lparr>user = ''D'', actions = Number 1\<rparr>,
      \<lparr>user = ''E'', actions = Number 1\<rparr>]"
    by (simp add: userActivitySpec_def abBatch_def sampleEvent_def)
  have "processUserActivity abBatch = userActivitySpec abBatch"
    using processUserActivity_first_five [of abBatch] plain by blast
  with plain own spec show ?thesis by simp
qed


subsection \<open>The prediction fan-out\<close>

lemma fetchJson_cases:
  "fetchJson Rejected = Inl FetchRejected"
  "fetchJson (Resolved ok None) = Inl JsonRejected"
  "fetchJson (Resolved ok (Some v)) = Inr v"
  by (simp_all add: fetchJson_def)

lemma withPrediction_clear:
  "(withPrediction r e)\<lparr>ml_prediction := None\<rparr> = e\<lparr>ml_prediction := None\<rparr>"
  by (simp add: withPrediction_def split: sum.splits)

lemma withPrediction_cases:
  "withPrediction Rejected e = e"
  "withPrediction (Resolved ok None) e = e"
  "withPrediction (Resolved ok (Some p)) e = e\<lparr>ml_prediction := Some p\<rparr>"
  by (simp_all add: withPrediction_def fetchJson_def)

lemma withPrediction_chainRejects: "chainRejects r \<Longrightarrow> withPrediction r e = e"
  by (cases r) (auto simp: chainRejects_def withPrediction_cases)

text \<open>
  Claim C1 says that an event whose prediction request failed is kept as it came. The
  callback never reads the status of the response, so a request answered with a status that is
  not ok and a body that decodes is not treated as failed: the body is merged into the event.
\<close>

theorem merged_despite_status_counterexample:
  "eventsWithPredictions unavailablePredict [sampleEvent ''alice'' ''READ'' True] =
     [(sampleEvent ''alice'' ''READ'' True)
        \<lparr>ml_prediction := Some \<lparr>prediction = ''unavailable'', confidence = 0\<rparr>\<rparr>] \<and>
   eventsWithPredictions unavailablePredict [sampleEvent ''alice'' ''READ'' True] \<noteq>
     [sampleEvent ''alice'' ''READ'' True]"
  by (simp add: eventsWithPredictions_def mapIdx_def unavailablePredict_def
      withPrediction_cases sampleEvent_def)

text \<open>
  Claim C1, amended. For every batch of raw events and whatever each prediction request does,
  the fan-out returns as many events as it was given, in the same order: position \<open>i\<close>
  holds event \<open>i\<close> with the decoded body merged in when the fetch of request \<open>i\<close> resolved
  and its body decoded, whatever the status of the response, and event \<open>i\<close> as it came when
  the fetch was rejected or the body did not decode. Apart from the prediction field the
  output is the input, so no event is dropped or duplicated; when every request is rejected
  or undecodable the output is the input.
\<close>

theorem eventsWithPredictions_by_response:
  "length (eventsWithPredictions predict es) = length es \<and>
   (\<forall>i < length es.
      eventsWithPredictions predict es ! i =
        (case predict i (es ! i) of
           Rejected \<Rightarrow> es ! i
         | Resolved ok body \<Rightarrow>
             (case body of
                None \<Rightarrow> es ! i
              | Some p \<Rightarrow> (es ! i)\<lparr>ml_prediction := Some p\<rparr>))) \<and>
   map (\<lambda>e. e\<lparr>ml_prediction := None\<rparr>) (eventsWithPredictions predict es) =
     map (\<lambda>e. e\<lparr>ml_prediction := None\<rparr>) es \<and>
   ((\<forall>i < length es. chainRejects (predict i (es ! i))) \<longrightarrow>
      eventsWithPredictions predict es = es)"
proof -
  have len: "length (eventsWithPredictions predict es) = length es"
    by (simp add: eventsWithPredictions_def length_mapIdx)
  have nth: "eventsWithPredictions predict es ! i = withPrediction (predict i (es ! i)) (es ! i)"
    if "i < length es" for i
    using that by (simp add: eventsWithPredictions_def nth_mapIdx)
  have pos: "eventsWithPredictions predict es ! i =
        (case predict i (es ! i) of
           Rejected \<Rightarrow> es ! i
         | Resolved ok body \<Rightarrow>
             (case body of
                None \<Rightarrow> es ! i
              | Some p \<Rightarrow> (es ! i)\<lparr>ml_prediction := Some p\<rparr>))" if "i < length es" for i
    by (simp add: nth [OF that] withPrediction_cases split: fetchResult.splits option.splits)
  have strip: "map (\<lambda>e. e\<lparr>ml_prediction := None\<rparr>) (eventsWithPredictions predict es) =
     map (\<lambda>e. e\<lparr>ml_prediction := None\<rparr>) es"
    by (simp add: eventsWithPredictions_def map_mapIdx withPrediction_clear mapIdx_const)
  have allfail: "eventsWithPredictions predict es = es"
    if "\<forall>i < length es. chainRejects (predict i (es ! i))"
  proof (rule nth_equalityI)
    show "length (eventsWithPredictions predict es) = length es" by (rule len)
  next
    fix i assume "i < length (eventsWithPredictions predict es)"
    then have i: "i < length es" by (simp add: len)
    with that have "chainRejects (predict i (es ! i))" by simp
    then show "eventsWithPredictions predict es ! i = es ! i"
      by (simp add: nth [OF i] withPrediction_chainRejects)
  qed
  from len pos strip allfail show ?thesis by blast
qed

theorem eventsWithPredictions_by_response_witness:
  "eventsWithPredictions samplePredict
     [sampleEvent ''alice'' ''READ'' True, sampleEvent ''bob'' ''READ'' False,
      sampleEvent ''carol'' ''UPDATE'' True]
   = [(sampleEvent ''alice'' ''READ'' True)
        \<lparr>ml_prediction := Some \<lparr>prediction = ''suspicious'', confidence = 0.9\<rparr>\<rparr>,
      sampleEvent ''bob'' ''READ'' False, sampleEvent ''carol'' ''UPDATE'' True] \<and>
   eventsWithPredictions samplePredict
     [sampleEvent ''alice'' ''READ'' True, sampleEvent ''bob'' ''READ'' False,
      sampleEvent ''carol'' ''UPDATE'' True] ! 1 = sampleEvent ''bob'' ''READ'' False \<and>
   eventsWithPredictions unavailablePredict [sampleEvent ''alice'' ''READ'' True] ! 0 =
     (sampleEvent ''alice'' ''READ'' True)
        \<lparr>ml_prediction := Some \<lparr>prediction = ''unavailable'', confidence = 0\<rparr>\<rparr> \<and>
   chainRejects (samplePredict 1 (sampleEvent ''bob'' ''READ'' False)) \<and>
   eventsWithPredictions (\<lambda>idx. samplePredict (Suc idx)) [sampleEvent ''bob'' ''READ'' False] =
     [sampleEvent ''bob'' ''READ'' False]"
proof -
  let ?b = "[sampleEvent ''alice'' ''READ'' True, sampleEvent ''bob'' ''READ'' False,
      sampleEvent ''carol'' ''UPDATE'' True]"
  from eventsWithPredictions_by_response [of samplePredict ?b]
  have n: "\<forall>i<3. eventsWithPredictions samplePredict ?b ! i =
        (case samplePredict i (?b ! i) of
           Rejected \<Rightarrow> ?b ! i
         | Resolved ok body \<Rightarrow>
             (case body of
                None \<Rightarrow> ?b ! i
              | Some p \<Rightarrow> (?b ! i)\<lparr>ml_prediction := Some p\<rparr>))"
    and l: "length (eventsWithPredictions samplePredict ?b) = 3" by simp_all
  have a: "eventsWithPredictions samplePredict ?b ! 1 = sampleEvent ''bob'' ''READ'' False"
    using n by (simp add: samplePredict_def)
  have whole: "eventsWithPredictions samplePredict ?b =
      [(sampleEvent ''alice'' ''READ'' True)
        \<lparr>ml_prediction := Some \<lparr>prediction = ''suspicious'', confidence = 0.9\<rparr>\<rparr>,
      sampleEvent ''bob'' ''READ'' False, sampleEvent ''carol'' ''UPDATE'' True]"
    by (simp add: eventsWithPredictions_def mapIdx_def withPrediction_cases samplePredict_def)
  have u: "eventsWithPredictions unavailablePredict [sampleEvent ''alice'' ''READ'' True] ! 0 =
     (sampleEvent ''alice'' ''READ'' True)
        \<lparr>ml_prediction := Some \<lparr>prediction = ''unavailable'', confidence = 0\<rparr>\<rparr>"
    using eventsWithPredictions_by_response
      [of unavailablePredict "[sampleEvent ''alice'' ''READ'' True]"]
    by (simp add: unavailablePredict_def)
  have c: "chainRejects (samplePredict 1 (sampleEvent ''bob'' ''READ'' False))"
    by (simp add: chainRejects_def samplePredict_def)
  have f: "eventsWithPredictions (\<lambda>idx. samplePredict (Suc idx))
      [sampleEvent ''bob'' ''READ'' False] = [sampleEvent ''bob'' ''READ'' False]"
    using eventsWithPredictions_by_response
      [of "\<lambda>idx. samplePredict (Suc idx)" "[sampleEvent ''bob'' ''READ'' False]"]
    by (simp add: chainRejects_def samplePredict_def)
  from whole a u c f show ?thesis by simp
qed


subsection \<open>The ROC curve\<close>

lemma elemAt_in: "i < length xs \<Longrightarrow> elemAt xs i = Some (xs ! i)"
  by (simp add: elemAt_def)

text \<open>
  Claim C5. For \<^verbatim>\<open>fpr\<close>, \<^verbatim>\<open>tpr\<close> and \<^verbatim>\<open>thresholds\<close> of equal length the component computes
  as many points as the arrays have elements, point \<open>i\<close> being
  \<open>(fpr[i], tpr[i], thresholds[i])\<close>, and beside them the reference diagonal, which is the
  two points \<open>(0,0)\<close> and \<open>(1,1)\<close>.
\<close>

theorem chartData_zips:
  "fpr d = Some fs \<Longrightarrow> length (tpr d) = length fs \<Longrightarrow> length (thresholds d) = length fs \<Longrightarrow>
   (\<exists>v. renderROCCurve (Some d) = Some v \<and>
        length (curve v) = length fs \<and>
        (\<forall>i < length fs.
           curve v ! i =
             \<lparr>point_fpr = fs ! i, point_tpr = Some (tpr d ! i),
              point_threshold = Some (thresholds d ! i)\<rparr>) \<and>
        diagonal v = [(0, 0), (1, 1)])"
  by (simp add: renderROCCurve_def chartData_def length_mapIdx nth_mapIdx elemAt_in
      referenceData_def)

theorem chartData_zips_witness:
  "renderROCCurve
     (Some \<lparr>fpr = Some [0, 0.1, 1], tpr = [0, 0.8, 1], thresholds = [1.9, 0.6, 0.1],
            auc = 0.93, quality = ''good''\<rparr>) =
   Some \<lparr>curve =
           [\<lparr>point_fpr = 0, point_tpr = Some 0, point_threshold = Some 1.9\<rparr>,
            \<lparr>point_fpr = 0.1, point_tpr = Some 0.8, point_threshold = Some 0.6\<rparr>,
            \<lparr>point_fpr = 1, point_tpr = Some 1, point_threshold = Some 0.1\<rparr>],
         diagonal = [(0, 0), (1, 1)], badge = ''blue''\<rparr>"
  using chartData_zips
    [of "\<lparr>fpr = Some [0, 0.1, 1], tpr = [0, 0.8, 1], thresholds = [1.9, 0.6, 0.1],
            auc = 0.93, quality = ''good''\<rparr>" "[0, 0.1, 1]"]
  by (simp add: renderROCCurve_def chartData_def mapIdx_def elemAt_def referenceData_def
      getAUCColor_def)

subsection \<open>The nosy-admin alert\<close>

lemma length_map_filter_indexed:
  "length (List.map_filter indexed obj) = length (filter (\<lambda>p. arrayIndex (fst p) \<noteq> None) obj)"
  by (induction obj) (auto simp: List.map_filter_simps indexed_def split: option.splits)

lemma length_objectEntries: "length (objectEntries obj) = length obj"
proof -
  have "length (objectEntries obj) =
      length (filter (\<lambda>p. \<not> arrayIndex (fst p) = None) obj)
      + length (filter (\<lambda>p. arrayIndex (fst p) = None) obj)"
    by (simp add: objectEntries_def length_map_filter_indexed)
  also have "\<dots> = length obj"
    using sum_length_filter_compl [of "\<lambda>p. arrayIndex (fst p) = None" obj] by simp
  finally show ?thesis .
qed

lemma hasNosyAdmins_Some:
  "hasNosyAdmins (Some d) = ((case nosy_admins d of None \<Rightarrow> [] | Some obj \<Rightarrow> obj) \<noteq> [])"
  by (simp add: hasNosyAdmins_def objectKeys_def length_objectEntries)

text \<open>
  Claim C2. \<^verbatim>\<open>hasNosyAdmins\<close> is true exactly when the \<^verbatim>\<open>nosy_admins\<close> mapping has an entry,
  whatever the entries' counts and whatever the threshold: the threshold is never compared
  with a count, so a mapping whose only entry is below the threshold raises the alert too.
\<close>

theorem hasNosyAdmins_presence:
  "hasNosyAdmins (Some \<lparr>nosy_admins = Some m, threshold = t, total_admin_reads = r\<rparr>) = (m \<noteq> []) \<and>
   hasNosyAdmins (Some \<lparr>nosy_admins = None, threshold = t, total_admin_reads = r\<rparr>) = False \<and>
   hasNosyAdmins (Some (d\<lparr>threshold := t\<rparr>)) = hasNosyAdmins (Some d) \<and>
   hasNosyAdmins
     (Some \<lparr>nosy_admins = Some [(''admin_7'', 2)], threshold = 5, total_admin_reads = 2\<rparr>) = True"
  by (simp add: hasNosyAdmins_Some)

text \<open>
  Claim C3 says that the alert decision is the specification's \<open>AlertState\<close>, the existence
  of an admin whose count is above the threshold. It is not: one admin with 2 reads under a
  threshold of 5 raises the alert.
\<close>

theorem hasNosyAdmins_not_threshold_counterexample:
  "hasNosyAdmins
     (Some \<lparr>nosy_admins = Some [(''admin_7'', 2)], threshold = 5, total_admin_reads = 2\<rparr>)
   \<noteq> alertStateSpec \<lparr>nosy_admins = Some [(''admin_7'', 2)], threshold = 5, total_admin_reads = 2\<rparr>"
  by (simp add: hasNosyAdmins_Some alertStateSpec_def)

text \<open>
  Claim C3, amended. The alert decision holds exactly when the mapping has an entry. It
  holds whenever \<open>AlertState\<close> holds, and it equals \<open>AlertState\<close> for every payload whose
  mapping lists only counts above the threshold.
\<close>

theorem hasNosyAdmins_alertState:
  "hasNosyAdmins (Some d) = ((case nosy_admins d of None \<Rightarrow> [] | Some obj \<Rightarrow> obj) \<noteq> []) \<and>
   (alertStateSpec d \<longrightarrow> hasNosyAdmins (Some d)) \<and>
   (list_all (\<lambda>(u, n). n > threshold d) (case nosy_admins d of None \<Rightarrow> [] | Some obj \<Rightarrow> obj) \<longrightarrow>
      hasNosyAdmins (Some d) = alertStateSpec d)"
proof -
  obtain m where m: "m = (case nosy_admins d of None \<Rightarrow> [] | Some obj \<Rightarrow> obj)" by simp
  have a: "alertStateSpec d = list_ex (\<lambda>(u, n). n > threshold d) m"
    by (simp add: alertStateSpec_def m)
  have h: "hasNosyAdmins (Some d) = (m \<noteq> [])"
    by (simp add: hasNosyAdmins_Some m)
  have "list_ex (\<lambda>(u, n). n > threshold d) m \<longrightarrow> m \<noteq> []" by auto
  moreover have "list_all (\<lambda>(u, n). n > threshold d) m \<longrightarrow>
      (m \<noteq> []) = list_ex (\<lambda>(u, n). n > threshold d) m"
    by (cases m) auto
  ultimately show ?thesis unfolding a h m by blast
qed

theorem hasNosyAdmins_alertState_witness:
  "alertStateSpec \<lparr>nosy_admins = Some [(''root'', 12), (''dba'', 7)], threshold = 5, total_admin_reads = 19\<rparr> \<and>
   list_all (\<lambda>(u, n). n > (5::real)) [(''root'', 12), (''dba'', 7)] \<and>
   hasNosyAdmins (Some \<lparr>nosy_admins = Some [(''root'', 12), (''dba'', 7)], threshold = 5, total_admin_reads = 19\<rparr>) \<and>
   hasNosyAdmins (Some \<lparr>nosy_admins = Some [(''admin_7'', 2)], threshold = 5, total_admin_reads = 2\<rparr>) \<and>
   \<not> alertStateSpec \<lparr>nosy_admins = Some [(''admin_7'', 2)], threshold = 5, total_admin_reads = 2\<rparr> \<and>
   \<not> hasNosyAdmins (Some \<lparr>nosy_admins = Some [], threshold = 5, total_admin_reads = 0\<rparr>)"
  using hasNosyAdmins_alertState
    [of "\<lparr>nosy_admins = Some [(''root'', 12), (''dba'', 7)], threshold = 5, total_admin_reads = 19\<rparr>"]
    hasNosyAdmins_alertState
    [of "\<lparr>nosy_admins = Some [(''admin_7'', 2)], threshold = 5, total_admin_reads = 2\<rparr>"]
    hasNosyAdmins_alertState
    [of "\<lparr>nosy_admins = Some [], threshold = 5, total_admin_reads = 0\<rparr>"]
  by (simp add: alertStateSpec_def)

subsection \<open>The Dashboard's fetch cycle\<close>

lemma fetchData_fails:
  "cycleFails t h n \<Longrightarrow>
   fetchData now t h n s = s\<lparr>error := Some ''Failed to connect to backend'', loading := False\<rparr>"
  by (auto simp: cycleFails_def fetchData_def split: sum.splits)

lemma fetchData_succeeds:
  "\<not> cycleFails t h n \<Longrightarrow>
   \<exists>test health nosy.
     getTestData t = Inr test \<and> getHealth h = Inr health \<and> fetchJson n = Inr nosy \<and>
     fetchData now t h n s =
       s\<lparr>testData := Some test, healthData := Some health, nosyAdmins := Some nosy,
         lastUpdate := now, loading := False\<rparr>"
  by (auto simp: cycleFails_def fetchData_def split: sum.splits)

lemma render_ConnectionError:
  "render s = ConnectionError msg \<longleftrightarrow> (\<not> loading s \<and> error s = Some msg \<and> msg \<noteq> [])"
  by (auto simp: render_def mainScreen_def split: option.splits)

lemma cycleFails_iff:
  "cycleFails t h n = (checkedChainRejects t \<or> checkedChainRejects h \<or> chainRejects n)"
  by (auto simp: cycleFails_def checkedChainRejects_def chainRejects_def getTestData_def
      getHealth_def fetchJson_def split: fetchResult.splits option.splits)

lemma not_checkedChainRejects:
  "(\<not> checkedChainRejects r) = (\<exists>v. r = Resolved True (Some v))"
  by (cases r) (auto simp: checkedChainRejects_def)

lemma not_chainRejects:
  "(\<not> chainRejects r) = (\<exists>ok v. r = Resolved ok (Some v))"
  by (cases r) (auto simp: chainRejects_def)

lemma fetchData_all_resolved:
  "fetchData now (Resolved True (Some test)) (Resolved True (Some health))
     (Resolved ok (Some nosy)) s =
   s\<lparr>testData := Some test, healthData := Some health, nosyAdmins := Some nosy,
     lastUpdate := now, loading := False\<rparr>"
  by (simp add: fetchData_def getTestData_def getHealth_def fetchJson_def)

text \<open>
  Claim C8 says that the failure of any one of the three fetches leads to the connection
  error. \<^verbatim>\<open>getTestData\<close> and \<^verbatim>\<open>getHealth\<close> throw on a response that is not ok, but the
  nosy-admin request is a bare \<^verbatim>\<open>fetch\<close> whose status is never read: answered with a
  status that is not ok and a body that decodes, beside good answers of the two others, it leaves the Dashboard
  on its main screen.
\<close>

theorem ready_despite_status_counterexample:
  "render (fetchData 1 (Resolved True (Some sampleTest)) (Resolved True (Some sampleHealth))
     (Resolved False (Some sampleNosy)) (initialDashboard 0)) =
     MainScreen (Some sampleTest) (Some sampleHealth) (Some sampleNosy) 1 True \<and>
   render (fetchData 1 (Resolved True (Some sampleTest)) (Resolved True (Some sampleHealth))
     (Resolved False (Some sampleNosy)) (initialDashboard 0)) \<noteq>
     ConnectionError ''Failed to connect to backend''"
  by (simp add: fetchData_all_resolved initialDashboard_def render_def mainScreen_def
      hasNosyAdmins_Some sampleNosy_def)

text \<open>
  Claim C8, amended. When one of the three promises of a cycle rejects, the cycle takes the
  \<^verbatim>\<open>catch\<close> branch and the Dashboard shows the connection error, not the main screen, whatever
  its state was. The promise of \<^verbatim>\<open>/api/test\<close> and that of \<^verbatim>\<open>/health\<close> reject when the fetch
  is rejected, the response is not ok or the body does not decode; the promise of the
  nosy-admin request rejects when the fetch is rejected or the body does not decode, its
  status not being looked at. The main screen therefore needs an ok, decodable answer of
  \<^verbatim>\<open>/api/test\<close> and of \<^verbatim>\<open>/health\<close> and a decodable answer of the nosy-admin request, and
  from a state without error these give the main screen with the three new payloads. The
  witness is a \<^verbatim>\<open>/health\<close> answer that is not ok beside a good \<^verbatim>\<open>/api/test\<close> answer.
\<close>

theorem fetchData_needs_all_three:
  "((checkedChainRejects t \<or> checkedChainRejects h \<or> chainRejects n) \<longrightarrow>
      render (fetchData now t h n s) = ConnectionError ''Failed to connect to backend'' \<and>
      render (fetchData now t h n s) \<noteq> mainScreen (fetchData now t h n s)) \<and>
   (render (fetchData now t h n s) = mainScreen (fetchData now t h n s) \<longrightarrow>
      (\<exists>test health ok nosy.
         t = Resolved True (Some test) \<and> h = Resolved True (Some health) \<and>
         n = Resolved ok (Some nosy))) \<and>
   (error s = None \<longrightarrow>
      render (fetchData now (Resolved True (Some test)) (Resolved True (Some health))
        (Resolved ok (Some nosy)) s) =
      MainScreen (Some test) (Some health) (Some nosy) now (hasNosyAdmins (Some nosy)))"
proof -
  have bad: "render (fetchData now t h n s) = ConnectionError ''Failed to connect to backend'' \<and>
      render (fetchData now t h n s) \<noteq> mainScreen (fetchData now t h n s)"
    if "checkedChainRejects t \<or> checkedChainRejects h \<or> chainRejects n"
  proof -
    from that have "cycleFails t h n" by (simp add: cycleFails_iff)
    then show ?thesis by (simp add: fetchData_fails render_def mainScreen_def)
  qed
  have need: "\<exists>test health ok nosy.
         t = Resolved True (Some test) \<and> h = Resolved True (Some health) \<and>
         n = Resolved ok (Some nosy)"
    if r: "render (fetchData now t h n s) = mainScreen (fetchData now t h n s)"
  proof -
    from bad r have "\<not> checkedChainRejects t" "\<not> checkedChainRejects h" "\<not> chainRejects n"
      by auto
    then show ?thesis by (auto simp: not_checkedChainRejects not_chainRejects)
  qed
  have good: "render (fetchData now (Resolved True (Some test)) (Resolved True (Some health))
        (Resolved ok (Some nosy)) s) =
      MainScreen (Some test) (Some health) (Some nosy) now (hasNosyAdmins (Some nosy))"
    if "error s = None"
    using that by (simp add: fetchData_all_resolved render_def mainScreen_def)
  from bad need good show ?thesis by blast
qed

theorem fetchData_needs_all_three_witness:
  "checkedChainRejects (Resolved False (Some sampleHealth)) \<and>
   \<not> checkedChainRejects (Resolved True (Some sampleTest)) \<and>
   render (fetchData 1 (Resolved True (Some sampleTest)) (Resolved False (Some sampleHealth))
     (Resolved True (Some sampleNosy)) (initialDashboard 0)) =
     ConnectionError ''Failed to connect to backend'' \<and>
   error (initialDashboard 0) = None \<and>
   render (fetchData 1 (Resolved True (Some sampleTest)) (Resolved True (Some sampleHealth))
     (Resolved True (Some sampleNosy)) (initialDashboard 0)) =
     MainScreen (Some sampleTest) (Some sampleHealth) (Some sampleNosy) 1 True \<and>
   render (fetchData 1 (Resolved True (Some sampleTest)) (Resolved True (Some sampleHealth))
     (Resolved True (Some sampleNosy)) (initialDashboard 0)) =
     mainScreen (fetchData 1 (Resolved True (Some sampleTest)) (Resolved True (Some sampleHealth))
     (Resolved True (Some sampleNosy)) (initialDashboard 0))"
proof -
  have c: "checkedChainRejects (Resolved False (Some sampleHealth))"
    "\<not> checkedChainRejects (Resolved True (Some sampleTest))"
    by (simp_all add: checkedChainRejects_def)
  have e: "error (initialDashboard 0) = None" by (simp add: initialDashboard_def)
  have a: "render (fetchData 1 (Resolved True (Some sampleTest))
      (Resolved False (Some sampleHealth)) (Resolved True (Some sampleNosy))
      (initialDashboard 0)) = ConnectionError ''Failed to connect to backend''"
    using fetchData_needs_all_three
      [of "Resolved True (Some sampleTest)" "Resolved False (Some sampleHealth)"
        "Resolved True (Some sampleNosy)" 1 "initialDashboard 0"] c
    by blast
  have b: "render (fetchData 1 (Resolved True (Some sampleTest))
      (Resolved True (Some sampleHealth)) (Resolved True (Some sampleNosy))
      (initialDashboard 0)) =
     MainScreen (Some sampleTest) (Some sampleHealth) (Some sampleNosy) 1 True"
    using fetchData_needs_all_three
      [of "Resolved True (Some sampleTest)" "Resolved True (Some sampleHealth)"
        "Resolved True (Some sampleNosy)" 1 "initialDashboard 0" sampleTest sampleHealth True
        sampleNosy] e
    by (simp add: hasNosyAdmins_Some sampleNosy_def)
  have m: "mainScreen (fetchData 1 (Resolved True (Some sampleTest))
      (Resolved True (Some sampleHealth)) (Resolved True (Some sampleNosy))
      (initialDashboard 0)) =
     MainScreen (Some sampleTest) (Some sampleHealth) (Some sampleNosy) 1 True"
    by (simp add: fetchData_all_resolved mainScreen_def initialDashboard_def
        hasNosyAdmins_Some sampleNosy_def)
  from c e a b m show ?thesis by simp
qed


lemma runCycle_keeps_error:
  assumes "\<not> loading s" "error s = Some msg" "msg \<noteq> []"
  shows "\<not> loading (runCycle c s) \<and>
         (error (runCycle c s) = Some msg \<or>
          error (runCycle c s) = Some ''Failed to connect to backend'')"
proof -
  obtain now t h n where c: "c = (now, t, h, n)" by (cases c)
  show ?thesis
  proof (cases "cycleFails t h n")
    case True
    then show ?thesis by (simp add: c runCycle_def fetchData_fails)
  next
    case False
    from fetchData_succeeds [OF False, of now s] assms show ?thesis
      by (auto simp: c runCycle_def)
  qed
qed

lemma runCycles_keep_error:
  "\<not> loading s \<Longrightarrow> error s = Some msg \<Longrightarrow> msg \<noteq> [] \<Longrightarrow>
   \<not> loading (runCycles cs s) \<and>
   (error (runCycles cs s) = Some msg \<or>
    error (runCycles cs s) = Some ''Failed to connect to backend'')"
proof (induction cs arbitrary: s msg)
  case Nil
  then show ?case by (simp add: runCycles_def)
next
  case (Cons c cs)
  from runCycle_keeps_error [OF Cons.prems, of c]
  have l: "\<not> loading (runCycle c s)"
    and e: "error (runCycle c s) = Some msg \<or>
            error (runCycle c s) = Some ''Failed to connect to backend''" by simp_all
  have step: "runCycles (c # cs) s = runCycles cs (runCycle c s)"
    by (simp add: runCycles_def)
  from e show ?case
  proof
    assume "error (runCycle c s) = Some msg"
    from Cons.IH [OF l this Cons.prems(3)] show ?thesis by (simp add: step)
  next
    assume "error (runCycle c s) = Some ''Failed to connect to backend''"
    from Cons.IH [OF l this] show ?thesis by (auto simp: step)
  qed
qed

text \<open>
  Claim C10. Once the Dashboard shows the connection error it shows it after any further
  sequence of fetch cycles, whatever their requests do: the \<^verbatim>\<open>try\<close> branch never touches
  \<^verbatim>\<open>error\<close>, so a cycle in which all three requests succeed leaves \<^verbatim>\<open>error\<close> as it was and the
  connection error on screen.
\<close>

theorem connection_error_is_permanent:
  "render s = ConnectionError msg \<Longrightarrow>
   (render (runCycles cs s) = ConnectionError msg \<or>
    render (runCycles cs s) = ConnectionError ''Failed to connect to backend'') \<and>
   (\<not> cycleFails t h n \<longrightarrow>
      error (fetchData now t h n s) = error s \<and>
      render (fetchData now t h n s) = ConnectionError msg)"
proof -
  assume r: "render s = ConnectionError msg"
  then have s: "\<not> loading s" "error s = Some msg" "msg \<noteq> []"
    by (simp_all add: render_ConnectionError)
  from runCycles_keep_error [OF s, of cs]
  have a: "render (runCycles cs s) = ConnectionError msg \<or>
    render (runCycles cs s) = ConnectionError ''Failed to connect to backend''"
    by (auto simp: render_ConnectionError s)
  have b: "error (fetchData now t h n s) = error s \<and>
      render (fetchData now t h n s) = ConnectionError msg" if "\<not> cycleFails t h n"
    using fetchData_succeeds [OF that, of now s] s
    by (auto simp: render_ConnectionError)
  from a b show ?thesis by blast
qed

theorem connection_error_is_permanent_witness:
  "render (fetchData 1 Rejected Rejected Rejected (initialDashboard 0)) =
     ConnectionError ''Failed to connect to backend'' \<and>
   \<not> cycleFails (Resolved True (Some sampleTest)) (Resolved True (Some sampleHealth))
     (Resolved True (Some sampleNosy)) \<and>
   render (runCycles
     [(2, Resolved True (Some sampleTest), Resolved True (Some sampleHealth),
       Resolved True (Some sampleNosy))]
     (fetchData 1 Rejected Rejected Rejected (initialDashboard 0))) =
     ConnectionError ''Failed to connect to backend''"
proof -
  have r: "render (fetchData 1 Rejected Rejected Rejected (initialDashboard 0)) =
     ConnectionError ''Failed to connect to backend''"
    by (simp add: fetchData_def getTestData_def render_def initialDashboard_def)
  have ok: "\<not> cycleFails (Resolved True (Some sampleTest)) (Resolved True (Some sampleHealth))
     (Resolved True (Some sampleNosy))"
    by (simp add: cycleFails_def getTestData_def getHealth_def fetchJson_def)
  from connection_error_is_permanent [OF r,
      of "[(2, Resolved True (Some sampleTest), Resolved True (Some sampleHealth),
       Resolved True (Some sampleNosy))]"] r ok
  show ?thesis by simp
qed


subsection \<open>Snapshots across fetch cycles\<close>

text \<open>
  Claim C9 says that after a failed fetch the stale data stays on screen. For the Dashboard it
  does not: a Dashboard showing its data, after one cycle whose requests are rejected, shows
  the connection error instead.
\<close>

theorem stale_summary_not_displayed_counterexample:
  "render readyDashboard =
     MainScreen (Some sampleTest) (Some sampleHealth) (Some sampleNosy) 1 True \<and>
   render (fetchData 2 Rejected Rejected Rejected readyDashboard) =
     ConnectionError ''Failed to connect to backend'' \<and>
   render (fetchData 2 Rejected Rejected Rejected readyDashboard) \<noteq> render readyDashboard"
  by (simp add: readyDashboard_def render_def mainScreen_def fetchData_def getTestData_def
      hasNosyAdmins_def sampleNosy_def objectKeys_def objectEntries_def indexed_def
      arrayIndex_def digitOf_def List.map_filter_simps)

text \<open>
  Claim C9, amended. A cycle of \<^verbatim>\<open>fetchChartData\<close> whose body decodes replaces the stored
  chart data by a value computed from the new payload alone, and a cycle whose request is
  rejected or whose body does not decode leaves the stored chart data, and with it the
  charts on screen, as they were. A cycle of \<^verbatim>\<open>fetchData\<close> whose three promises succeed
  replaces the three stored payloads by the new ones, and a cycle with a rejected promise
  leaves the three stored payloads and the update time as they were, but the Dashboard then
  shows the connection error and not the stored data.
\<close>

theorem fetch_cycle_snapshot:
  "fetchChartData (Resolved ok (Some data)) old = Some (chartsOf data) \<and>
   fetchChartData Rejected old = old \<and>
   fetchChartData (Resolved ok None) old = old \<and>
   renderThreatCharts (fetchChartData Rejected old) = renderThreatCharts old \<and>
   renderThreatCharts (fetchChartData (Resolved ok None) old) = renderThreatCharts old \<and>
   (\<not> cycleFails t h n \<longrightarrow>
      (\<exists>test health nosy.
         getTestData t = Inr test \<and> getHealth h = Inr health \<and> fetchJson n = Inr nosy \<and>
         testData (fetchData now t h n s) = Some test \<and>
         healthData (fetchData now t h n s) = Some health \<and>
         nosyAdmins (fetchData now t h n s) = Some nosy)) \<and>
   (cycleFails t h n \<longrightarrow>
      testData (fetchData now t h n s) = testData s \<and>
      healthData (fetchData now t h n s) = healthData s \<and>
      nosyAdmins (fetchData now t h n s) = nosyAdmins s \<and>
      lastUpdate (fetchData now t h n s) = lastUpdate s \<and>
      render (fetchData now t h n s) = ConnectionError ''Failed to connect to backend'')"
proof -
  have charts: "fetchChartData (Resolved ok (Some data)) old = Some (chartsOf data)"
    "fetchChartData Rejected old = old" "fetchChartData (Resolved ok None) old = old"
    by (simp_all add: fetchChartData_def fetchJson_def)
  have good: "\<exists>test health nosy.
         getTestData t = Inr test \<and> getHealth h = Inr health \<and> fetchJson n = Inr nosy \<and>
         testData (fetchData now t h n s) = Some test \<and>
         healthData (fetchData now t h n s) = Some health \<and>
         nosyAdmins (fetchData now t h n s) = Some nosy" if "\<not> cycleFails t h n"
    using fetchData_succeeds [OF that, of now s] by auto
  have bad: "testData (fetchData now t h n s) = testData s \<and>
      healthData (fetchData now t h n s) = healthData s \<and>
      nosyAdmins (fetchData now t h n s) = nosyAdmins s \<and>
      lastUpdate (fetchData now t h n s) = lastUpdate s \<and>
      render (fetchData now t h n s) = ConnectionError ''Failed to connect to backend''"
    if "cycleFails t h n"
    by (simp add: fetchData_fails [OF that] render_def)
  from charts good bad show ?thesis by simp
qed

theorem fetch_cycle_snapshot_witness:
  "\<not> cycleFails (Resolved True (Some sampleTest)) (Resolved True (Some sampleHealth))
     (Resolved False (Some sampleNosy)) \<and>
   testData (fetchData 2 (Resolved True (Some sampleTest)) (Resolved True (Some sampleHealth))
     (Resolved False (Some sampleNosy)) (initialDashboard 0)) = Some sampleTest \<and>
   cycleFails Rejected (Resolved True (Some sampleHealth)) (Resolved True (Some sampleNosy)) \<and>
   testData (fetchData 2 Rejected (Resolved True (Some sampleHealth))
     (Resolved True (Some sampleNosy)) readyDashboard) = Some sampleTest \<and>
   render (fetchData 2 Rejected (Resolved True (Some sampleHealth))
     (Resolved True (Some sampleNosy)) readyDashboard) =
     ConnectionError ''Failed to connect to backend''"
proof -
  have ok: "\<not> cycleFails (Resolved True (Some sampleTest)) (Resolved True (Some sampleHealth))
     (Resolved False (Some sampleNosy))"
    by (simp add: cycleFails_def getTestData_def getHealth_def fetchJson_def)
  have ko: "cycleFails Rejected (Resolved True (Some sampleHealth))
     (Resolved True (Some sampleNosy))"
    by (simp add: cycleFails_def getTestData_def)
  have snap: "testData readyDashboard = Some sampleTest"
    by (simp add: readyDashboard_def)
  from ok ko snap
    fetch_cycle_snapshot [of True sampleData None "Resolved True (Some sampleTest)"
      "Resolved True (Some sampleHealth)" "Resolved False (Some sampleNosy)" 2
      "initialDashboard 0"]
    fetch_cycle_snapshot [of True sampleData None Rejected
      "Resolved True (Some sampleHealth)" "Resolved True (Some sampleNosy)" 2 readyDashboard]
  show ?thesis by (auto simp: getTestData_def)
qed


end
